theory Spec2Isabelle
  imports Main "HOL-Library.Word"
begin

section \<open>JavaScript values\<close>

type_synonym byte = "8 word"

text \<open>
  A value that an expression of the route module may throw: an instance of \<open>Error\<close>
  with its \<open>message\<close>, or any other value (\<open>error instanceof Error\<close> is false).
\<close>

datatype thrown = Error string | NonError

datatype json = JString string | JObject "(string \<times> json) list"

text \<open>
  \<open>a || b\<close> on operands that are a string or \<open>undefined\<close>: the left operand is taken
  unless it is falsy, and both \<open>undefined\<close> and the empty string are falsy.
  \<open>or_literal\<close> is the same operator with a string literal on the right.
\<close>

definition lor :: "string option \<Rightarrow> string option \<Rightarrow> string option" where
  "lor a b = (case a of None \<Rightarrow> b | Some s \<Rightarrow> if s = [] then b else Some s)"

definition or_literal :: "string option \<Rightarrow> string \<Rightarrow> string" where
  "or_literal a d = (case a of None \<Rightarrow> d | Some s \<Rightarrow> if s = [] then d else s)"

text \<open>\<open>Array.prototype.join\<close>.\<close>

fun join :: "string \<Rightarrow> string list \<Rightarrow> string" where
  "join sep [] = []"
| "join sep [x] = x"
| "join sep (x # y # ys) = x @ sep @ join sep (y # ys)"

text \<open>
  \<open>String.prototype.toLowerCase\<close> on header names, which are ASCII tokens: the
  letters A to Z are mapped to a to z and every other character is kept.
\<close>

definition toLowerCase_char :: "char \<Rightarrow> char" where
  "toLowerCase_char c =
     (case map_of (zip ''ABCDEFGHIJKLMNOPQRSTUVWXYZ'' ''abcdefghijklmnopqrstuvwxyz'') c of
        Some l \<Rightarrow> l
      | None \<Rightarrow> c)"

definition toLowerCase :: "string \<Rightarrow> string" where
  "toLowerCase s = map toLowerCase_char s"

text \<open>
  \<open>headers[key] = value\<close> on the plain object \<open>headers = {}\<close>. The object inherits
  the accessor \<open>__proto__\<close> of \<open>Object.prototype\<close>; an assignment to that key runs the
  setter, which ignores a value that is neither an object nor \<open>null\<close>, so no own
  property is created. Every other key becomes (or overwrites) an own property. The
  own properties are what \<open>fetch\<close> reads from the object.
\<close>

definition obj_assign :: "(string \<rightharpoonup> string) \<Rightarrow> string \<Rightarrow> string \<Rightarrow> (string \<rightharpoonup> string)" where
  "obj_assign obj key v = (if key = ''__proto__'' then obj else obj(key \<mapsto> v))"

section \<open>Objects of the platform\<close>

text \<open>
  A \<open>URL\<close> object: \<open>href\<close> is the text of the URL without its query and
  \<open>searchParams\<close> the list of its query pairs, in order. For an object made by
  \<open>new URL(s)\<close> the field \<open>href\<close> keeps \<open>s\<close> as it was written and the list starts
  empty. The platform's parser would split off a query or a fragment written in \<open>s\<close>
  and normalise the rest; that is not part of this development, which is exact for an
  \<open>s\<close> in normal form without \<open>?\<close> and \<open>#\<close>. \<open>url.toString()\<close> is the
  serialisation of the two fields, so a call of \<open>fetch\<close> is recorded with the
  object itself.
\<close>

record URL =
  href :: string
  searchParams :: "(string \<times> string) list"

definition URL_new :: "(string \<Rightarrow> bool) \<Rightarrow> string \<Rightarrow> thrown + URL" where
  "URL_new accepted s =
     (if accepted s then Inr \<lparr>href = s, searchParams = []\<rparr>
      else Inl (Error ''Invalid URL''))"

definition URLSearchParams_append :: "URL \<Rightarrow> string \<Rightarrow> string \<Rightarrow> URL" where
  "URLSearchParams_append url key v = url\<lparr>searchParams := searchParams url @ [(key, v)]\<rparr>"

text \<open>
  The inbound request. \<open>req_headers\<close> is \<open>request.headers\<close> as the sequence of
  (name, value) pairs that \<open>forEach\<close> visits. \<open>req_body\<close> is \<open>request.body\<close>:
  \<open>None\<close> for \<open>null\<close>, otherwise the outcome of reading the stream to its end with
  \<open>request.arrayBuffer()\<close>, which gives the bytes or throws.
\<close>

record NextRequest =
  "method" :: string
  nextUrl :: URL
  req_headers :: "(string \<times> string) list"
  req_body :: "(thrown + byte list) option"

text \<open>The second argument of \<open>fetch\<close>; \<open>init_body = None\<close> when the property is not set.\<close>

record RequestInit =
  init_method :: string
  init_headers :: "string \<rightharpoonup> string"
  init_body :: "byte list option"

text \<open>
  The backend's response as \<open>fetch\<close> resolves it. \<open>headers\<close> is its header list and
  \<open>arrayBuffer\<close> the outcome of reading its body to the end.
\<close>

record Response =
  status :: nat
  statusText :: string
  headers :: "(string \<times> string) list"
  arrayBuffer :: "thrown + byte list"

text \<open>
  \<open>Headers.get\<close>: the values of all headers whose name matches without regard to
  case, joined by a comma and a space; \<open>null\<close> when there is none.
\<close>

definition Headers_get :: "(string \<times> string) list \<Rightarrow> string \<Rightarrow> string option" where
  "Headers_get hs name =
     (let vs = map snd (filter (\<lambda>(k, v). toLowerCase k = toLowerCase name) hs)
      in if vs = [] then None else Some (join '', '' vs))"

text \<open>
  The part of the platform that a request meets: which strings the URL parser accepts,
  and what the network does with an outbound call.
\<close>

record platform =
  parses :: "string \<Rightarrow> bool"
  fetch :: "URL \<Rightarrow> RequestInit \<Rightarrow> thrown + Response"

text \<open>The response that a route handler returns.\<close>

datatype BodyInit = ArrayBuffer "byte list" | JSON json

record NextResponse =
  res_status :: nat
  res_statusText :: string
  res_headers :: "(string \<times> string) list"
  res_body :: "BodyInit option"

text \<open>
  The constructor of \<open>Response\<close>, which \<open>NextResponse\<close> extends: a status outside
  200 to 599 is a \<open>RangeError\<close>, and a body that is not \<open>null\<close> together with a
  null body status is a \<open>TypeError\<close>. The message texts stand for the runtime's.
\<close>

definition null_body_status :: "nat \<Rightarrow> bool" where
  "null_body_status s = (s = 101 \<or> s = 103 \<or> s = 204 \<or> s = 205 \<or> s = 304)"

definition NextResponse_new ::
  "BodyInit option \<Rightarrow> nat \<Rightarrow> string \<Rightarrow> (string \<times> string) list \<Rightarrow> thrown + NextResponse" where
  "NextResponse_new b st txt hs =
     (if st < 200 \<or> 599 < st then Inl (Error ''init status must be in the range of 200 to 599'')
      else if b \<noteq> None \<and> null_body_status st then Inl (Error ''Invalid response status code'')
      else Inr \<lparr>res_status = st, res_statusText = txt, res_headers = hs, res_body = b\<rparr>)"

definition NextResponse_json :: "json \<Rightarrow> nat \<Rightarrow> thrown + NextResponse" where
  "NextResponse_json v st =
     NextResponse_new (Some (JSON v)) st [] [(''content-type'', ''application/json'')]"

section \<open>The route module\<close>

text \<open>
  The module constant \<open>BACKEND_URL\<close>, as a function of the environment under which
  the module is evaluated.
\<close>

type_synonym env = "string \<rightharpoonup> string"

definition BACKEND_URL :: "env \<Rightarrow> string" where
  "BACKEND_URL e =
     or_literal (lor (e ''BACKEND_API_URL'') (e ''NEXT_PUBLIC_API_URL'')) ''http://localhost:8000''"

definition skipHeaders :: "string list" where
  "skipHeaders =
     [''host'', ''connection'', ''keep-alive'', ''transfer-encoding'', ''upgrade'',
      ''content-length'']"

definition getForwardHeaders :: "NextRequest \<Rightarrow> (string \<rightharpoonup> string)" where
  "getForwardHeaders request =
     fold (\<lambda>(key, v) hdrs.
             if toLowerCase key \<notin> set skipHeaders then obj_assign hdrs key v else hdrs)
          (req_headers request) Map.empty"

text \<open>
  The body of \<open>try\<close> in \<open>handler\<close>, in three parts. \<open>outbound\<close> is everything up to
  the call of \<open>fetch\<close>: the URL, the options and the body. The second argument
  \<open>path\<close> is \<open>params.path\<close>, \<open>None\<close> when it is \<open>undefined\<close>.
\<close>

definition build_url :: "platform \<Rightarrow> string \<Rightarrow> NextRequest \<Rightarrow> string list option \<Rightarrow> thrown + URL" where
  "build_url P B request path =
     (case URL_new (parses P) (B @ ''/api/v1/'' @ or_literal (map_option (join ''/'') path) '''') of
        Inl error \<Rightarrow> Inl error
      | Inr url \<Rightarrow>
          Inr (fold (\<lambda>(key, v) u. URLSearchParams_append u key v)
                 (searchParams (nextUrl request)) url))"

definition forward_body :: "NextRequest \<Rightarrow> thrown + byte list option" where
  "forward_body request =
     (if method request \<noteq> ''GET'' \<and> method request \<noteq> ''HEAD'' \<and> req_body request \<noteq> None
      then (case req_body request of
              Some (Inl error) \<Rightarrow> Inl error
            | Some (Inr body) \<Rightarrow> Inr (if length body > 0 then Some body else None)
            | None \<Rightarrow> Inr None)
      else Inr None)"

definition outbound ::
  "platform \<Rightarrow> string \<Rightarrow> NextRequest \<Rightarrow> string list option \<Rightarrow> thrown + URL \<times> RequestInit" where
  "outbound P B request path =
     (case build_url P B request path of
        Inl error \<Rightarrow> Inl error
      | Inr url \<Rightarrow>
          (let requestOptions =
                 \<lparr>init_method = method request, init_headers = getForwardHeaders request,
                  init_body = None\<rparr>
           in case forward_body request of
                Inl error \<Rightarrow> Inl error
              | Inr body \<Rightarrow> Inr (url, requestOptions\<lparr>init_body := body\<rparr>)))"

definition relay :: "Response \<Rightarrow> thrown + NextResponse" where
  "relay backendResponse =
     (case arrayBuffer backendResponse of
        Inl error \<Rightarrow> Inl error
      | Inr responseBody \<Rightarrow>
          NextResponse_new (Some (ArrayBuffer responseBody))
            (status backendResponse) (statusText backendResponse)
            [(''Content-Type'',
                or_literal (Headers_get (headers backendResponse) ''Content-Type'')
                  ''application/json''),
             (''Cache-Control'',
                or_literal (Headers_get (headers backendResponse) ''Cache-Control'') ''no-store''),
             (''Access-Control-Allow-Origin'', ''*''),
             (''Access-Control-Allow-Methods'', ''GET, POST, PUT, DELETE, OPTIONS''),
             (''Access-Control-Allow-Headers'', ''Content-Type, Authorization'')])"

text \<open>
  What a route handler does: the value it returns (or the value it throws) and the
  outbound calls it has made.
\<close>

record outcome =
  returned :: "thrown + NextResponse"
  fetched :: "(URL \<times> RequestInit) list"

definition try_block ::
  "platform \<Rightarrow> string \<Rightarrow> NextRequest \<Rightarrow> string list option \<Rightarrow> outcome" where
  "try_block P B request path =
     (case outbound P B request path of
        Inl error \<Rightarrow> \<lparr>returned = Inl error, fetched = []\<rparr>
      | Inr (url, requestOptions) \<Rightarrow>
          (case fetch P url requestOptions of
             Inl error \<Rightarrow> \<lparr>returned = Inl error, fetched = [(url, requestOptions)]\<rparr>
           | Inr backendResponse \<Rightarrow>
               \<lparr>returned = relay backendResponse, fetched = [(url, requestOptions)]\<rparr>))"

definition catch_block :: "string \<Rightarrow> thrown \<Rightarrow> thrown + NextResponse" where
  "catch_block B error =
     NextResponse_json
       (JObject
          [(''error'', JString ''Backend connection failed''),
           (''message'',
              JString (case error of Error message \<Rightarrow> message | NonError \<Rightarrow> ''Unknown error'')),
           (''backend_url'', JString B)])
       502"

definition handler ::
  "platform \<Rightarrow> string \<Rightarrow> NextRequest \<Rightarrow> string list option \<Rightarrow> outcome" where
  "handler P B request path =
     (let t = try_block P B request path
      in case returned t of
           Inl error \<Rightarrow> t\<lparr>returned := catch_block B error\<rparr>
         | Inr response \<Rightarrow> t)"

definition GET :: "platform \<Rightarrow> string \<Rightarrow> NextRequest \<Rightarrow> string list option \<Rightarrow> outcome" where
  "GET P B request path = handler P B request path"

definition POST :: "platform \<Rightarrow> string \<Rightarrow> NextRequest \<Rightarrow> string list option \<Rightarrow> outcome" where
  "POST P B request path = handler P B request path"

definition PUT :: "platform \<Rightarrow> string \<Rightarrow> NextRequest \<Rightarrow> string list option \<Rightarrow> outcome" where
  "PUT P B request path = handler P B request path"

definition DELETE :: "platform \<Rightarrow> string \<Rightarrow> NextRequest \<Rightarrow> string list option \<Rightarrow> outcome" where
  "DELETE P B request path = handler P B request path"

definition PATCH :: "platform \<Rightarrow> string \<Rightarrow> NextRequest \<Rightarrow> string list option \<Rightarrow> outcome" where
  "PATCH P B request path = handler P B request path"

definition OPTIONS :: "NextRequest \<Rightarrow> string list option \<Rightarrow> outcome" where
  "OPTIONS request path =
     \<lparr>returned =
        NextResponse_new None 204 []
          [(''Access-Control-Allow-Origin'', ''*''),
           (''Access-Control-Allow-Methods'', ''GET, POST, PUT, DELETE, PATCH, OPTIONS''),
           (''Access-Control-Allow-Headers'', ''Content-Type, Authorization''),
           (''Access-Control-Max-Age'', ''86400'')],
      fetched = []\<rparr>"

section \<open>The framework and the process\<close>

text \<open>
  How the framework calls the module for a request: the export named as the request's
  method; for HEAD, which the module does not export, the export \<open>GET\<close> (the request
  object, and so \<open>request.method\<close>, is unchanged); \<open>None\<close> (405) for a method with
  no export.
\<close>

definition route ::
  "platform \<Rightarrow> string \<Rightarrow> NextRequest \<Rightarrow> string list option \<Rightarrow> outcome option" where
  "route P B request path =
     (if method request = ''GET'' then Some (GET P B request path)
      else if method request = ''POST'' then Some (POST P B request path)
      else if method request = ''PUT'' then Some (PUT P B request path)
      else if method request = ''DELETE'' then Some (DELETE P B request path)
      else if method request = ''PATCH'' then Some (PATCH P B request path)
      else if method request = ''OPTIONS'' then Some (OPTIONS request path)
      else if method request = ''HEAD'' then Some (GET P B request path)
      else None)"

text \<open>
  A process evaluates the module once, under the environment it starts with, and then
  serves requests. Each request arrives with the environment and the platform as they
  are at that moment.
\<close>

fun serve ::
  "string \<Rightarrow> (env \<times> platform \<times> NextRequest \<times> string list option) list \<Rightarrow> outcome option list" where
  "serve B [] = []"
| "serve B ((e, P, request, path) # rest) = route P B request path # serve B rest"

definition process ::
  "env \<Rightarrow> (env \<times> platform \<times> NextRequest \<times> string list option) list \<Rightarrow> outcome option list" where
  "process e0 requests = serve (BACKEND_URL e0) requests"

section \<open>Stub backends and sample requests\<close>

text \<open>
  Concrete platforms and requests on which the theorems below are instantiated: a
  backend that answers 201 and echoes the body it was sent, one that refuses every
  connection, one that answers 204 with no content, and one that answers 200 with a
  \<open>Content-Type\<close> header whose value is empty.
\<close>

definition stub_echo :: platform where
  "stub_echo =
     \<lparr>parses = (\<lambda>s. True),
      fetch = (\<lambda>url opts.
        Inr \<lparr>status = 201, statusText = ''Created'',
             headers = [(''content-type'', ''application/json'')],
             arrayBuffer = Inr (case init_body opts of None \<Rightarrow> [] | Some b \<Rightarrow> b)\<rparr>)\<rparr>"

definition stub_refusing :: platform where
  "stub_refusing =
     \<lparr>parses = (\<lambda>s. True), fetch = (\<lambda>url opts. Inl (Error ''fetch failed''))\<rparr>"

definition stub_no_content :: platform where
  "stub_no_content =
     \<lparr>parses = (\<lambda>s. True),
      fetch = (\<lambda>url opts.
        Inr \<lparr>status = 204, statusText = ''No Content'', headers = [],
             arrayBuffer = Inr []\<rparr>)\<rparr>"

definition stub_blank_type :: platform where
  "stub_blank_type =
     \<lparr>parses = (\<lambda>s. True),
      fetch = (\<lambda>url opts.
        Inr \<lparr>status = 200, statusText = ''OK'', headers = [(''content-type'', [])],
             arrayBuffer = Inr [1]\<rparr>)\<rparr>"

definition upload_request :: NextRequest where
  "upload_request =
     \<lparr>method = ''POST'',
      nextUrl = \<lparr>href = ''https://app.example/api/v1/linguistic/upload'',
                 searchParams = [(''tag'', ''a''), (''lang'', ''x''), (''tag'', ''b'')]\<rparr>,
      req_headers =
        [(''authorization'', ''Bearer t''), (''content-length'', ''2''),
         (''content-type'', ''application/json''), (''host'', ''app.example'')],
      req_body = Some (Inr [123, 125])\<rparr>"

definition stats_request :: NextRequest where
  "stats_request =
     \<lparr>method = ''GET'',
      nextUrl = \<lparr>href = ''https://app.example/api/v1/linguistic/stats'', searchParams = []\<rparr>,
      req_headers = [(''accept'', ''*/*''), (''host'', ''app.example'')],
      req_body = Some (Inr [1, 2, 3])\<rparr>"

definition aborted_upload :: NextRequest where
  "aborted_upload = upload_request\<lparr>req_body := Some (Inl (Error ''aborted''))\<rparr>"

definition proto_request :: NextRequest where
  "proto_request =
     stats_request\<lparr>req_headers := [(''__proto__'', ''1''), (''x-trace'', ''7'')]\<rparr>"

section \<open>The try block, stage by stage\<close>

lemma fold_append:
  "fold (\<lambda>(key, v) u. URLSearchParams_append u key v) ps url
     = url\<lparr>searchParams := searchParams url @ ps\<rparr>"
  by (induction ps arbitrary: url) (auto simp: URLSearchParams_append_def)

lemma suffix_eq:
  "or_literal (map_option (join ''/'') path) [] =
     (case path of None \<Rightarrow> [] | Some segs \<Rightarrow> join ''/'' segs)"
  by (simp add: or_literal_def split: option.splits)

lemma build_url_eq:
  "build_url P B request path =
     (if parses P (B @ ''/api/v1/'' @ (case path of None \<Rightarrow> [] | Some segs \<Rightarrow> join ''/'' segs))
      then Inr \<lparr>href = B @ ''/api/v1/'' @ (case path of None \<Rightarrow> [] | Some segs \<Rightarrow> join ''/'' segs),
                searchParams = searchParams (nextUrl request)\<rparr>
      else Inl (Error ''Invalid URL''))"
  by (simp add: build_url_def URL_new_def fold_append suffix_eq)

lemma outbound_eq:
  "outbound P B request path =
     (if parses P (B @ ''/api/v1/'' @ (case path of None \<Rightarrow> [] | Some segs \<Rightarrow> join ''/'' segs))
      then (case forward_body request of
              Inl error \<Rightarrow> Inl error
            | Inr b \<Rightarrow>
                Inr (\<lparr>href = B @ ''/api/v1/''
                               @ (case path of None \<Rightarrow> [] | Some segs \<Rightarrow> join ''/'' segs),
                      searchParams = searchParams (nextUrl request)\<rparr>,
                     \<lparr>init_method = method request, init_headers = getForwardHeaders request,
                      init_body = b\<rparr>))
      else Inl (Error ''Invalid URL''))"
  by (simp add: outbound_def build_url_eq Let_def split: sum.splits)

lemma catch_block_eq:
  "catch_block B error =
     Inr \<lparr>res_status = 502, res_statusText = [],
          res_headers = [(''content-type'', ''application/json'')],
          res_body = Some (JSON (JObject
            [(''error'', JString ''Backend connection failed''),
             (''message'',
                JString (case error of Error m \<Rightarrow> m | NonError \<Rightarrow> ''Unknown error'')),
             (''backend_url'', JString B)]))\<rparr>"
  by (simp add: catch_block_def NextResponse_json_def NextResponse_new_def null_body_status_def)

lemma handler_total: "\<exists>r. returned (handler P B request path) = Inr r"
  by (auto simp: handler_def Let_def catch_block_eq split: sum.splits)

lemma fetched_handler_eq:
  "fetched (handler P B request path) =
     (case outbound P B request path of Inl e \<Rightarrow> [] | Inr c \<Rightarrow> [c])"
  by (auto simp: handler_def try_block_def Let_def split: sum.splits prod.splits)

lemma returned_handler_eq:
  "returned (handler P B request path) =
     (case outbound P B request path of
        Inl error \<Rightarrow> catch_block B error
      | Inr c \<Rightarrow>
          (case fetch P (fst c) (snd c) of
             Inl error \<Rightarrow> catch_block B error
           | Inr backendResponse \<Rightarrow>
               (case relay backendResponse of
                  Inl error \<Rightarrow> catch_block B error
                | Inr response \<Rightarrow> Inr response)))"
  by (simp add: handler_def try_block_def Let_def split: sum.splits prod.splits)

lemma relay_eq:
  "200 \<le> status br \<Longrightarrow> status br \<le> 599 \<Longrightarrow> \<not> null_body_status (status br) \<Longrightarrow>
   arrayBuffer br = Inr bytes \<Longrightarrow>
   relay br =
     Inr \<lparr>res_status = status br, res_statusText = statusText br,
          res_headers =
            [(''Content-Type'',
                or_literal (Headers_get (headers br) ''Content-Type'') ''application/json''),
             (''Cache-Control'',
                or_literal (Headers_get (headers br) ''Cache-Control'') ''no-store''),
             (''Access-Control-Allow-Origin'', ''*''),
             (''Access-Control-Allow-Methods'', ''GET, POST, PUT, DELETE, OPTIONS''),
             (''Access-Control-Allow-Headers'', ''Content-Type, Authorization'')],
          res_body = Some (ArrayBuffer bytes)\<rparr>"
  by (simp add: relay_def NextResponse_new_def)

lemma relay_not_envelope: "relay br = Inr response \<Longrightarrow> Inr response \<noteq> catch_block B error"
  by (auto simp: relay_def NextResponse_new_def catch_block_eq split: sum.splits if_splits)

text \<open>
  A backend answer with a null body status does not reach the caller: the constructor
  throws on the (empty, but not \<open>null\<close>) body and the catch block answers 502.
\<close>

lemma null_body_status_not_relayed:
  "outbound P B request path = Inr (url, opts) \<Longrightarrow> fetch P url opts = Inr br \<Longrightarrow>
   arrayBuffer br = Inr bytes \<Longrightarrow> status br = 204 \<or> status br = 205 \<or> status br = 304 \<Longrightarrow>
   returned (handler P B request path) = catch_block B (Error ''Invalid response status code'')"
  by (auto simp: returned_handler_eq relay_def NextResponse_new_def null_body_status_def)

section \<open>Dispatch\<close>



lemma process_map:
  "process e0 requests =
     map (\<lambda>(e, P, request, path). route P (BACKEND_URL e0) request path) requests"
  unfolding process_def by (induction requests) auto

section \<open>Forwarded headers\<close>

lemma fold_forward:
  "fold (\<lambda>(key, v) hdrs.
           if toLowerCase key \<notin> set skipHeaders then obj_assign hdrs key v else hdrs) hs m k
   = (if toLowerCase k \<in> set skipHeaders \<or> k = ''__proto__'' then m k
      else (case map_of (rev hs) k of None \<Rightarrow> m k | Some v \<Rightarrow> Some v))"
proof (induction hs arbitrary: m)
  case Nil
  then show ?case by simp
next
  case (Cons h hs)
  obtain key v where h: "h = (key, v)" by (cases h)
  show ?case
    by (simp add: h Cons.IH obj_assign_def map_add_def split: option.splits)
qed

lemma getForwardHeaders_eq:
  "getForwardHeaders request k =
     (if toLowerCase k \<in> set skipHeaders \<or> k = ''__proto__'' then None
      else map_of (rev (req_headers request)) k)"
  by (simp add: getForwardHeaders_def fold_forward split: option.splits)

text \<open>
  No forwarded header has a name of the denylist, whatever its case; and a header
  that is visited once, is not on the denylist and is not named \<open>__proto__\<close> is
  forwarded with its name and value.
\<close>

lemma skipped_headers_absent:
  "getForwardHeaders request k = Some v \<Longrightarrow> toLowerCase k \<notin> set skipHeaders"
  by (simp add: getForwardHeaders_eq split: if_splits)

lemma other_headers_forwarded:
  "distinct (map fst (req_headers request)) \<Longrightarrow> (k, v) \<in> set (req_headers request) \<Longrightarrow>
   toLowerCase k \<notin> set skipHeaders \<Longrightarrow> k \<noteq> ''__proto__'' \<Longrightarrow>
   getForwardHeaders request k = Some v"
  by (simp add: getForwardHeaders_eq rev_map [symmetric])

section \<open>The claims of the specification\<close>



text \<open>
  Claim C2. The claim asks that no forwarded header is on the denylist and that every
  other inbound header is forwarded unchanged. The first half holds
  (\<open>skipped_headers_absent\<close>). The second fails for an inbound header named
  \<open>__proto__\<close>, which is not on the denylist: the assignment to the plain object
  creates no property, so the header is not forwarded, while the header next to it is.
\<close>

theorem forward_headers_drop_proto:
  "req_headers proto_request = [(''__proto__'', ''1''), (''x-trace'', ''7'')]
   \<and> toLowerCase ''__proto__'' \<notin> set skipHeaders
   \<and> getForwardHeaders proto_request ''__proto__'' = None
   \<and> getForwardHeaders proto_request ''x-trace'' = Some ''7''"
  by (simp add: getForwardHeaders_def proto_request_def stats_request_def obj_assign_def
      toLowerCase_def toLowerCase_char_def skipHeaders_def)

text \<open>
  Claim C3. When the outbound call fails, the handler returns status 502 with a JSON
  body of exactly three fields: \<open>error\<close> is the fixed text, \<open>message\<close> is the message
  of the failure, and \<open>backend_url\<close> is the resolved origin, which is never the URL of
  the outbound call.
\<close>

theorem fetch_failure_envelope:
  assumes "outbound P B request path = Inr (url, opts)" and "fetch P url opts = Inl error"
  shows "returned (handler P B request path) =
           Inr \<lparr>res_status = 502, res_statusText = [],
                res_headers = [(''content-type'', ''application/json'')],
                res_body = Some (JSON (JObject
                  [(''error'', JString ''Backend connection failed''),
                   (''message'',
                      JString (case error of Error m \<Rightarrow> m | NonError \<Rightarrow> ''Unknown error'')),
                   (''backend_url'', JString B)]))\<rparr>
         \<and> B \<noteq> href url"
proof -
  have "href url = B @ ''/api/v1/'' @ (case path of None \<Rightarrow> [] | Some segs \<Rightarrow> join ''/'' segs)"
    using assms(1) by (auto simp: outbound_eq split: if_splits sum.splits)
  then have "B \<noteq> href url" by simp
  moreover have "returned (handler P B request path) = catch_block B error"
    using assms by (simp add: returned_handler_eq)
  ultimately show ?thesis by (simp add: catch_block_eq)
qed

theorem fetch_failure_envelope_witness:
  "map (\<lambda>(url, opts). fetch stub_refusing url opts)
       (fetched (handler stub_refusing ''http://b:8000'' stats_request
                   (Some [''linguistic'', ''stats''])))
     = [Inl (Error ''fetch failed'')]
   \<and> returned (handler stub_refusing ''http://b:8000'' stats_request
                 (Some [''linguistic'', ''stats''])) =
           Inr \<lparr>res_status = 502, res_statusText = [],
                res_headers = [(''content-type'', ''application/json'')],
                res_body = Some (JSON (JObject
                  [(''error'', JString ''Backend connection failed''),
                   (''message'', JString ''fetch failed''),
                   (''backend_url'', JString ''http://b:8000'')]))\<rparr>"
proof -
  have o: "outbound stub_refusing ''http://b:8000'' stats_request (Some [''linguistic'', ''stats'']) =
             Inr (\<lparr>href = ''http://b:8000/api/v1/linguistic/stats'', searchParams = []\<rparr>,
                  \<lparr>init_method = ''GET'', init_headers = getForwardHeaders stats_request,
                   init_body = None\<rparr>)"
    by (simp add: outbound_eq stub_refusing_def forward_body_def stats_request_def)
  have f: "fetch stub_refusing url opts = Inl (Error ''fetch failed'')" for url opts
    by (simp add: stub_refusing_def)
  from fetch_failure_envelope [OF o f] show ?thesis
    by (simp add: fetched_handler_eq o f)
qed

text \<open>
  Claim C4, as amended. When the outbound call succeeds, the backend's body can be
  read, and the backend's status is one the response constructor accepts with a body
  (200 to 599 and not a null body status), the handler returns the backend's status
  code, status text and body; \<open>Content-Type\<close> is the backend's value when that is
  present and not empty, and \<open>application/json\<close> otherwise; \<open>Cache-Control\<close> is the
  backend's value when present and not empty, and \<open>no-store\<close> otherwise; the three
  CORS headers follow; and there is no other header.
\<close>

theorem relayed_response:
  assumes "outbound P B request path = Inr (url, opts)"
    and "fetch P url opts = Inr br"
    and "arrayBuffer br = Inr bytes"
    and "200 \<le> status br" and "status br \<le> 599" and "\<not> null_body_status (status br)"
  shows "returned (handler P B request path) =
           Inr \<lparr>res_status = status br, res_statusText = statusText br,
                res_headers =
                  [(''Content-Type'',
                      case Headers_get (headers br) ''Content-Type'' of
                        None \<Rightarrow> ''application/json''
                      | Some v \<Rightarrow> if v = [] then ''application/json'' else v),
                   (''Cache-Control'',
                      case Headers_get (headers br) ''Cache-Control'' of
                        None \<Rightarrow> ''no-store''
                      | Some v \<Rightarrow> if v = [] then ''no-store'' else v),
                   (''Access-Control-Allow-Origin'', ''*''),
                   (''Access-Control-Allow-Methods'', ''GET, POST, PUT, DELETE, OPTIONS''),
                   (''Access-Control-Allow-Headers'', ''Content-Type, Authorization'')],
                res_body = Some (ArrayBuffer bytes)\<rparr>"
proof -
  have "returned (handler P B request path) = relay br"
    using assms(1,2) relay_eq [OF assms(4,5,6,3)]
    by (simp add: returned_handler_eq)
  then show ?thesis
    unfolding relay_eq [OF assms(4,5,6,3)]
    by (simp add: or_literal_def)
qed

theorem relayed_response_witness:
  "returned (handler stub_echo ''http://b:8000'' upload_request (Some [''linguistic'', ''upload''])) =
     Inr \<lparr>res_status = 201, res_statusText = ''Created'',
          res_headers =
            [(''Content-Type'', ''application/json''), (''Cache-Control'', ''no-store''),
             (''Access-Control-Allow-Origin'', ''*''),
             (''Access-Control-Allow-Methods'', ''GET, POST, PUT, DELETE, OPTIONS''),
             (''Access-Control-Allow-Headers'', ''Content-Type, Authorization'')],
          res_body = Some (ArrayBuffer [123, 125])\<rparr>"
proof -
  let ?url = "\<lparr>href = ''http://b:8000/api/v1/linguistic/upload'',
               searchParams = [(''tag'', ''a''), (''lang'', ''x''), (''tag'', ''b'')]\<rparr>"
  let ?opts = "\<lparr>init_method = ''POST'', init_headers = getForwardHeaders upload_request,
                init_body = Some [123, 125]\<rparr>"
  let ?br = "\<lparr>status = 201, statusText = ''Created'',
              headers = [(''content-type'', ''application/json'')],
              arrayBuffer = Inr [123, 125]\<rparr>"
  have o: "outbound stub_echo ''http://b:8000'' upload_request (Some [''linguistic'', ''upload'']) =
             Inr (?url, ?opts)"
    by (simp add: outbound_eq stub_echo_def forward_body_def upload_request_def)
  have f: "fetch stub_echo ?url ?opts = Inr ?br"
    by (simp add: stub_echo_def)
  have g1: "Headers_get (headers ?br) ''Content-Type'' = Some ''application/json''"
    by (simp add: Headers_get_def toLowerCase_def toLowerCase_char_def)
  have g2: "Headers_get (headers ?br) ''Cache-Control'' = None"
    by (simp add: Headers_get_def toLowerCase_def toLowerCase_char_def)
  from relayed_response [OF o f, of "[123, 125]"] g1 g2 show ?thesis
    by (simp add: null_body_status_def)
qed

text \<open>
  Claim C4 as written fails twice. The backend answers 204 to a call that succeeds,
  and the caller receives 502, not 204. The backend sends a \<open>Content-Type\<close> header
  with an empty value, so it did not omit the header, and the caller receives
  \<open>application/json\<close>.
\<close>

theorem relayed_response_counterexample:
  "map (\<lambda>(url, opts). map_sum id status (fetch stub_no_content url opts))
       (fetched (handler stub_no_content ''http://b:8000'' upload_request
                   (Some [''linguistic'', ''upload''])))
     = [Inr 204]
   \<and> map_sum id res_status
        (returned (handler stub_no_content ''http://b:8000'' upload_request
                     (Some [''linguistic'', ''upload''])))
     = Inr 502
   \<and> map (\<lambda>(url, opts). map_sum id (\<lambda>br. Headers_get (headers br) ''Content-Type'')
                           (fetch stub_blank_type url opts))
       (fetched (handler stub_blank_type ''http://b:8000'' upload_request
                   (Some [''linguistic'', ''upload''])))
     = [Inr (Some [])]
   \<and> map_sum id (\<lambda>r. map_of (res_headers r) ''Content-Type'')
        (returned (handler stub_blank_type ''http://b:8000'' upload_request
                     (Some [''linguistic'', ''upload''])))
     = Inr (Some ''application/json'')"
  by (simp add: returned_handler_eq fetched_handler_eq outbound_eq forward_body_def
      upload_request_def stub_no_content_def stub_blank_type_def relay_def NextResponse_new_def
      null_body_status_def catch_block_eq Headers_get_def toLowerCase_def toLowerCase_char_def
      or_literal_def)

text \<open>
  Claim C5. An OPTIONS request, on any path, is answered with status 204, no body,
  the three CORS headers with PATCH among the allowed methods, and
  \<open>Access-Control-Max-Age: 86400\<close>; no outbound call is made.
\<close>

theorem preflight:
  assumes "method request = ''OPTIONS''"
  shows "route P B request path =
           Some \<lparr>returned =
                   Inr \<lparr>res_status = 204, res_statusText = [],
                        res_headers =
                          [(''Access-Control-Allow-Origin'', ''*''),
                           (''Access-Control-Allow-Methods'',
                              ''GET, POST, PUT, DELETE, PATCH, OPTIONS''),
                           (''Access-Control-Allow-Headers'', ''Content-Type, Authorization''),
                           (''Access-Control-Max-Age'', ''86400'')],
                        res_body = None\<rparr>,
                 fetched = []\<rparr>"
  using assms by (simp add: route_def OPTIONS_def NextResponse_new_def)

theorem preflight_witness:
  "method (upload_request\<lparr>method := ''OPTIONS''\<rparr>) = ''OPTIONS''
   \<and> route stub_refusing ''http://b:8000'' (upload_request\<lparr>method := ''OPTIONS''\<rparr>)
        (Some [''any'', ''path'']) =
           Some \<lparr>returned =
                   Inr \<lparr>res_status = 204, res_statusText = [],
                        res_headers =
                          [(''Access-Control-Allow-Origin'', ''*''),
                           (''Access-Control-Allow-Methods'',
                              ''GET, POST, PUT, DELETE, PATCH, OPTIONS''),
                           (''Access-Control-Allow-Headers'', ''Content-Type, Authorization''),
                           (''Access-Control-Max-Age'', ''86400'')],
                        res_body = None\<rparr>,
                 fetched = []\<rparr>"
proof -
  have m: "method (upload_request\<lparr>method := ''OPTIONS''\<rparr>) = ''OPTIONS''" by simp
  from preflight [OF m] m show ?thesis by simp
qed

text \<open>
  Claim C6. An outbound call for GET or HEAD carries no body, whatever the inbound
  request carries. For any other method a non-empty inbound body is forwarded byte for
  byte, and an empty or absent inbound body gives an outbound call with no body.
\<close>

theorem body_forwarding:
  assumes "c \<in> set (fetched (handler P B request path))"
  shows "(method request = ''GET'' \<or> method request = ''HEAD'' \<longrightarrow> init_body (snd c) = None)
       \<and> (method request \<noteq> ''GET'' \<and> method request \<noteq> ''HEAD'' \<longrightarrow>
            (\<forall>bytes. req_body request = Some (Inr bytes) \<and> bytes \<noteq> [] \<longrightarrow>
               init_body (snd c) = Some bytes)
          \<and> (req_body request = Some (Inr []) \<or> req_body request = None \<longrightarrow>
               init_body (snd c) = None))"
  using assms
  by (auto simp: fetched_handler_eq outbound_eq forward_body_def split: if_splits sum.splits)

theorem body_forwarding_witness:
  "map (\<lambda>c. init_body (snd c))
     (fetched (handler stub_echo ''http://b:8000'' upload_request (Some [''linguistic'', ''upload''])))
     = [Some [123, 125]]
   \<and> map (\<lambda>c. init_body (snd c))
       (fetched (handler stub_echo ''http://b:8000'' stats_request (Some [''linguistic'', ''stats''])))
     = [None]
   \<and> map (\<lambda>c. init_body (snd c))
       (fetched (handler stub_echo ''http://b:8000'' (upload_request\<lparr>req_body := Some (Inr [])\<rparr>)
                   None))
     = [None]"
proof -
  let ?u = "\<lparr>href = ''http://b:8000/api/v1/linguistic/upload'',
               searchParams = [(''tag'', ''a''), (''lang'', ''x''), (''tag'', ''b'')]\<rparr>"
  let ?c = "(?u, \<lparr>init_method = ''POST'', init_headers = getForwardHeaders upload_request,
                init_body = Some [123, 125]\<rparr>)"
  have f: "fetched (handler stub_echo ''http://b:8000'' upload_request
                      (Some [''linguistic'', ''upload''])) = [?c]"
    by (simp add: fetched_handler_eq outbound_eq stub_echo_def forward_body_def upload_request_def)
  then have m: "?c \<in> set (fetched (handler stub_echo ''http://b:8000'' upload_request
                                     (Some [''linguistic'', ''upload''])))"
    by simp
  have rest: "map (\<lambda>c. init_body (snd c))
       (fetched (handler stub_echo ''http://b:8000'' stats_request (Some [''linguistic'', ''stats''])))
     = [None]
   \<and> map (\<lambda>c. init_body (snd c))
       (fetched (handler stub_echo ''http://b:8000'' (upload_request\<lparr>req_body := Some (Inr [])\<rparr>)
                   None))
     = [None]"
    by (simp add: fetched_handler_eq outbound_eq stub_echo_def forward_body_def upload_request_def
        stats_request_def)
  from body_forwarding [OF m] f rest show ?thesis
    by (simp add: upload_request_def)
qed

text \<open>
  Claim C7, as amended. The resolved origin is the private value when that is set to a
  string that is not empty; otherwise the public value when that is set to a string
  that is not empty; otherwise \<open>http://localhost:8000\<close>. It is resolved when the
  process evaluates the module, and every request of the process is served with that
  origin, whatever the environment is when the request arrives.
\<close>

theorem backend_url_resolution:
  "(\<forall>a. e0 ''BACKEND_API_URL'' = Some a \<and> a \<noteq> [] \<longrightarrow> BACKEND_URL e0 = a)
   \<and> (\<forall>b. (e0 ''BACKEND_API_URL'' = None \<or> e0 ''BACKEND_API_URL'' = Some [])
          \<and> e0 ''NEXT_PUBLIC_API_URL'' = Some b \<and> b \<noteq> [] \<longrightarrow> BACKEND_URL e0 = b)
   \<and> ((e0 ''BACKEND_API_URL'' = None \<or> e0 ''BACKEND_API_URL'' = Some [])
        \<and> (e0 ''NEXT_PUBLIC_API_URL'' = None \<or> e0 ''NEXT_PUBLIC_API_URL'' = Some []) \<longrightarrow>
        BACKEND_URL e0 = ''http://localhost:8000'')
   \<and> process e0 requests =
       map (\<lambda>(e, P, request, path). route P (BACKEND_URL e0) request path) requests"
  by (auto simp: BACKEND_URL_def lor_def or_literal_def process_map)

theorem backend_url_resolution_witness:
  "BACKEND_URL [''BACKEND_API_URL'' \<mapsto> ''http://private:8000'',
                ''NEXT_PUBLIC_API_URL'' \<mapsto> ''http://public:8000'']
     = ''http://private:8000''
   \<and> process [''BACKEND_API_URL'' \<mapsto> ''http://private:8000'',
               ''NEXT_PUBLIC_API_URL'' \<mapsto> ''http://public:8000'']
       [(Map.empty, stub_echo, stats_request, None),
        ([''BACKEND_API_URL'' \<mapsto> ''http://other:1''], stub_refusing, upload_request, Some [''x''])]
     = [route stub_echo ''http://private:8000'' stats_request None,
        route stub_refusing ''http://private:8000'' upload_request (Some [''x''])]"
  using backend_url_resolution
    [of "[''BACKEND_API_URL'' \<mapsto> ''http://private:8000'',
          ''NEXT_PUBLIC_API_URL'' \<mapsto> ''http://public:8000'']"
        "[(Map.empty, stub_echo, stats_request, None),
          ([''BACKEND_API_URL'' \<mapsto> ''http://other:1''], stub_refusing, upload_request,
           Some [''x''])]"]
  by simp

text \<open>
  Claim C7 as written fails when the private variable is set to the empty string: it
  is set, and the resolved origin is the public value.
\<close>

theorem backend_url_resolution_counterexample:
  "[''BACKEND_API_URL'' \<mapsto> [], ''NEXT_PUBLIC_API_URL'' \<mapsto> ''http://public:8000'']
     ''BACKEND_API_URL'' = Some []
   \<and> BACKEND_URL [''BACKEND_API_URL'' \<mapsto> [], ''NEXT_PUBLIC_API_URL'' \<mapsto> ''http://public:8000'']
       = ''http://public:8000''"
  by (simp add: BACKEND_URL_def lor_def or_literal_def)

text \<open>
  Claim C8, as amended. Provided that a backend answer, when there is one, has a
  status that the response constructor accepts with a body, the handler returns the
  502 envelope exactly when a stage of the try block throws: the URL does not parse,
  reading the inbound body fails, the outbound call fails, or reading the backend's
  body fails. Nothing else leads to the envelope; no input is inspected or rejected.
\<close>

theorem envelope_iff_stage_fails:
  assumes "\<forall>url opts br.
             outbound P B request path = Inr (url, opts) \<and> fetch P url opts = Inr br \<longrightarrow>
             200 \<le> status br \<and> status br \<le> 599 \<and> \<not> null_body_status (status br)"
  shows "(\<exists>error. returned (handler P B request path) = catch_block B error) \<longleftrightarrow>
           \<not> parses P (B @ ''/api/v1/'' @ (case path of None \<Rightarrow> [] | Some segs \<Rightarrow> join ''/'' segs))
         \<or> (\<exists>error. method request \<noteq> ''GET'' \<and> method request \<noteq> ''HEAD''
               \<and> req_body request = Some (Inl error))
         \<or> (\<exists>url opts error. outbound P B request path = Inr (url, opts)
               \<and> fetch P url opts = Inl error)
         \<or> (\<exists>url opts br error. outbound P B request path = Inr (url, opts)
               \<and> fetch P url opts = Inr br \<and> arrayBuffer br = Inl error)"
proof (cases "outbound P B request path")
  case (Inl e)
  then have "returned (handler P B request path) = catch_block B e"
    by (simp add: returned_handler_eq)
  moreover have
    "\<not> parses P (B @ ''/api/v1/'' @ (case path of None \<Rightarrow> [] | Some segs \<Rightarrow> join ''/'' segs))
     \<or> (\<exists>error. method request \<noteq> ''GET'' \<and> method request \<noteq> ''HEAD''
           \<and> req_body request = Some (Inl error))"
    using Inl by (auto simp: outbound_eq forward_body_def split: if_splits sum.splits option.splits)
  ultimately show ?thesis by blast
next
  case (Inr c)
  obtain url opts where c: "c = (url, opts)" by (cases c)
  have ok: "parses P (B @ ''/api/v1/'' @ (case path of None \<Rightarrow> [] | Some segs \<Rightarrow> join ''/'' segs))"
    and nb: "\<not> (\<exists>error. method request \<noteq> ''GET'' \<and> method request \<noteq> ''HEAD''
               \<and> req_body request = Some (Inl error))"
    using Inr by (auto simp: outbound_eq forward_body_def split: if_splits sum.splits option.splits)
  show ?thesis
  proof (cases "fetch P url opts")
    case (Inl e)
    then have "returned (handler P B request path) = catch_block B e"
      using Inr c by (simp add: returned_handler_eq)
    then show ?thesis using Inr c Inl by blast
  next
    case fr: (Inr br)
    have st: "200 \<le> status br" "status br \<le> 599" "\<not> null_body_status (status br)"
      using assms Inr c fr by auto
    show ?thesis
    proof (cases "arrayBuffer br")
      case (Inl e)
      then have "returned (handler P B request path) = catch_block B e"
        using Inr c fr by (simp add: returned_handler_eq relay_def)
      then show ?thesis using Inr c fr Inl by blast
    next
      case ab: (Inr bytes)
      obtain response where rl: "relay br = Inr response"
        using relay_eq [OF st ab] by blast
      have "returned (handler P B request path) = Inr response"
        using Inr c fr rl by (simp add: returned_handler_eq)
      then have "\<not> (\<exists>error. returned (handler P B request path) = catch_block B error)"
        using relay_not_envelope [OF rl] by auto
      then show ?thesis using Inr c fr ab ok nb by auto
    qed
  qed
qed

theorem envelope_iff_stage_fails_witness:
  "returned (handler stub_refusing ''http://b:8000'' stats_request (Some [''linguistic'', ''stats'']))
     = catch_block ''http://b:8000'' (Error ''fetch failed'')
   \<and> \<not> (\<exists>error. returned (handler stub_echo ''http://b:8000'' upload_request
                              (Some [''linguistic'', ''upload'']))
                  = catch_block ''http://b:8000'' error)"
proof -
  have h1: "\<forall>url opts br.
      outbound stub_refusing ''http://b:8000'' stats_request (Some [''linguistic'', ''stats''])
        = Inr (url, opts)
      \<and> fetch stub_refusing url opts = Inr br \<longrightarrow>
      200 \<le> status br \<and> status br \<le> 599 \<and> \<not> null_body_status (status br)"
    by (simp add: stub_refusing_def)
  have h2: "\<forall>url opts br.
      outbound stub_echo ''http://b:8000'' upload_request (Some [''linguistic'', ''upload''])
        = Inr (url, opts)
      \<and> fetch stub_echo url opts = Inr br \<longrightarrow>
      200 \<le> status br \<and> status br \<le> 599 \<and> \<not> null_body_status (status br)"
    by (auto simp: stub_echo_def null_body_status_def)
  have a: "returned (handler stub_refusing ''http://b:8000'' stats_request
                       (Some [''linguistic'', ''stats'']))
     = catch_block ''http://b:8000'' (Error ''fetch failed'')"
    by (simp add: returned_handler_eq outbound_eq stub_refusing_def forward_body_def
        stats_request_def)
  have b: "\<not> (\<exists>error. returned (handler stub_echo ''http://b:8000'' upload_request
                                   (Some [''linguistic'', ''upload'']))
                  = catch_block ''http://b:8000'' error)"
    using envelope_iff_stage_fails [OF h2]
    by (simp add: outbound_eq stub_echo_def forward_body_def upload_request_def)
  from envelope_iff_stage_fails [OF h1] a b show ?thesis by simp
qed

text \<open>
  Claim C8 as written fails when the inbound body cannot be read: no outbound call
  is made, so none fails, and the caller receives the 502 envelope.
\<close>

theorem envelope_iff_stage_fails_counterexample:
  "fetched (handler stub_echo ''http://b:8000'' aborted_upload (Some [''linguistic'', ''upload'']))
     = []
   \<and> returned (handler stub_echo ''http://b:8000'' aborted_upload
                 (Some [''linguistic'', ''upload''])) =
       Inr \<lparr>res_status = 502, res_statusText = [],
            res_headers = [(''content-type'', ''application/json'')],
            res_body = Some (JSON (JObject
              [(''error'', JString ''Backend connection failed''),
               (''message'', JString ''aborted''),
               (''backend_url'', JString ''http://b:8000'')]))\<rparr>"
  by (simp add: returned_handler_eq fetched_handler_eq outbound_eq forward_body_def
      aborted_upload_def upload_request_def stub_echo_def catch_block_eq)



text \<open>
  Claim C10. The handler always returns a response and never throws. A failure at any
  stage (building the URL, reading the inbound body, the outbound call, reading the
  backend's body) is caught and answered with the 502 envelope, whose \<open>message\<close> is
  the message of the thrown \<open>Error\<close>, and \<open>Unknown error\<close> when the thrown value is
  not an \<open>Error\<close>.
\<close>

theorem handler_never_throws:
  "(\<exists>response. returned (handler P B request path) = Inr response)
   \<and> (\<forall>error.
         build_url P B request path = Inl error
       \<or> (\<exists>url. build_url P B request path = Inr url \<and> req_body request = Some (Inl error)
              \<and> method request \<noteq> ''GET'' \<and> method request \<noteq> ''HEAD'')
       \<or> (\<exists>url opts. outbound P B request path = Inr (url, opts) \<and> fetch P url opts = Inl error)
       \<or> (\<exists>url opts br. outbound P B request path = Inr (url, opts) \<and> fetch P url opts = Inr br
              \<and> arrayBuffer br = Inl error)
       \<longrightarrow> returned (handler P B request path) = catch_block B error)
   \<and> (\<forall>message. catch_block B (Error message) =
         Inr \<lparr>res_status = 502, res_statusText = [],
              res_headers = [(''content-type'', ''application/json'')],
              res_body = Some (JSON (JObject
                [(''error'', JString ''Backend connection failed''),
                 (''message'', JString message),
                 (''backend_url'', JString B)]))\<rparr>)
   \<and> catch_block B NonError =
         Inr \<lparr>res_status = 502, res_statusText = [],
              res_headers = [(''content-type'', ''application/json'')],
              res_body = Some (JSON (JObject
                [(''error'', JString ''Backend connection failed''),
                 (''message'', JString ''Unknown error''),
                 (''backend_url'', JString B)]))\<rparr>"
proof -
  have stage: "returned (handler P B request path) = catch_block B error"
    if "build_url P B request path = Inl error
       \<or> (\<exists>url. build_url P B request path = Inr url \<and> req_body request = Some (Inl error)
              \<and> method request \<noteq> ''GET'' \<and> method request \<noteq> ''HEAD'')
       \<or> (\<exists>url opts. outbound P B request path = Inr (url, opts) \<and> fetch P url opts = Inl error)
       \<or> (\<exists>url opts br. outbound P B request path = Inr (url, opts) \<and> fetch P url opts = Inr br
              \<and> arrayBuffer br = Inl error)" for error
    using that
    by (auto simp: returned_handler_eq outbound_def forward_body_def relay_def Let_def)
  show ?thesis
    using handler_total [of P B request path] stage by (simp add: catch_block_eq)
qed

theorem handler_never_throws_witness:
  "returned (handler stub_echo ''http://b:8000'' aborted_upload None) =
         Inr \<lparr>res_status = 502, res_statusText = [],
              res_headers = [(''content-type'', ''application/json'')],
              res_body = Some (JSON (JObject
                [(''error'', JString ''Backend connection failed''),
                 (''message'', JString ''aborted''),
                 (''backend_url'', JString ''http://b:8000'')]))\<rparr>"
proof -
  have b: "build_url stub_echo ''http://b:8000'' aborted_upload None =
             Inr \<lparr>href = ''http://b:8000/api/v1/'',
                  searchParams = searchParams (nextUrl aborted_upload)\<rparr>"
    by (simp add: build_url_eq stub_echo_def)
  have r: "req_body aborted_upload = Some (Inl (Error ''aborted''))"
    and m: "method aborted_upload \<noteq> ''GET''" "method aborted_upload \<noteq> ''HEAD''"
    by (simp_all add: aborted_upload_def upload_request_def)
  from handler_never_throws [of stub_echo "''http://b:8000''" aborted_upload None] b r m
  show ?thesis by (auto simp: catch_block_eq)
qed

end
